theory Spec2Isabelle
  imports Main "HOL-Library.AList"
begin

section \<open>The account application: data model\<close>

text \<open>
  The models of \<^verbatim>\<open>account/models.py\<close>. A row is a record; the primary key that
  Django adds to every model is the field \<open>pk\<close>. Points in time are integers, counted
  in microseconds (the resolution of Python's \<^verbatim>\<open>datetime\<close>), and so are durations.
  \<open>CustomUser\<close> has, besides its own columns, the columns \<open>password\<close> and
  \<open>last_login\<close> of \<^verbatim>\<open>AbstractBaseUser\<close> and \<open>is_superuser\<close> of
  \<^verbatim>\<open>PermissionsMixin\<close>; the group and permission relations of the mixin are
  not used by the views and are left out.
\<close>

type_synonym time = int

record CustomUser =
  pk :: int
  password :: string
  last_login :: "time option"
  is_superuser :: bool
  email :: string
  otp :: "int option"
  first_name :: string
  last_name :: string
  business_name :: "string option"
  individual_url :: "string option"
  business :: "bool option"
  individual :: "bool option"
  email_verified :: bool
  accepted_terms :: bool
  is_active :: bool
  is_staff :: bool
  created_at :: time
  updated_at :: time

record Token =
  pk :: int
  user_id :: int
  access :: string
  refresh :: string
  created_at :: time
  updated_at :: time

record OTP =
  pk :: int
  user_id :: int
  generated_otp :: "int option"
  created_at :: time
  updated_at :: time

text \<open>
  Values that travel in a JSON body, in keyword arguments and in token claims, and
  Python dictionaries of them: an association list in insertion order, where
  \<^verbatim>\<open>d.update(other)\<close> overwrites the value of a key that is present and appends
  a new key at the end.
\<close>

datatype json = JNull | JBool bool | JInt int | JStr string | JList "json list"

type_synonym dict = "(string \<times> json) list"

definition dict_update :: "dict \<Rightarrow> dict \<Rightarrow> dict" where
  "dict_update d other = foldl (\<lambda>acc kv. AList.update (fst kv) (snd kv) acc) d other"

text \<open>
  A notification handed to \<^verbatim>\<open>notify_user\<close>: the primary key of the user it is
  for (\<open>None\<close> for the anonymous user), its kind and its message.
\<close>

record notification =
  recipient :: "int option"
  kind :: string
  message :: string

text \<open>
  The state a request runs against: the three tables, the sequence each table draws
  its next primary key from, the notifications published so far and the
  authentication hash of the session.
\<close>

record state =
  users :: "CustomUser list"
  tokens :: "Token list"
  otps :: "OTP list"
  user_seq :: int
  token_seq :: int
  events :: "notification list"
  session_auth_hash :: "string option"

section \<open>The collaborators of a request\<close>

text \<open>
  A statement of the source that writes to the database is named by its file and line.
\<close>

datatype site = views_py nat | models_py nat

text \<open>
  Everything a view reads that is not in \<^verbatim>\<open>views.py\<close> or \<^verbatim>\<open>models.py\<close>,
  as it behaves during the request at hand:
  \<^item> \<open>now\<close>: the clock, \<^verbatim>\<open>timezone.now()\<close>; one request reads one time;
  \<^item> \<open>db_fault\<close>: whether the database raises at the write issued by the statement at
    a site (a lost connection, a failed disk). The settings of the project are not
    among the sources; section 5 of the specification says that no write of the source
    is transactional but the block of \<^verbatim>\<open>ValidateOTPView\<close>, so every write outside a
    \<^verbatim>\<open>transaction.atomic()\<close> block is committed when it is made (Django's default);
  \<^item> \<open>make_password\<close>, \<open>check_password\<close>, \<open>normalize_email\<close>,
    \<open>get_session_auth_hash\<close>, \<open>render_to_string\<close>: the primitives of Django that
    the code calls. \<open>check_password raw encoded\<close> is the password check against a
    stored hash; the re-hashing Django does when the hasher's parameters changed is
    not modelled;
  \<^item> \<open>get_access_token\<close>, \<open>get_refresh_token\<close>, \<open>verify_token\<close>: the three
    methods of \<^verbatim>\<open>CustomAuthentication\<close> (\<^verbatim>\<open>account/authentication.py\<close>);
  \<^item> \<open>generate_otp\<close>, \<open>send_email\<close>: the two functions of
    \<^verbatim>\<open>account/utils.py\<close>; \<open>send_email\<close> gives the text of the exception it
    raises, or \<open>None\<close> when the mail is dispatched;
  \<^item> \<open>DEFAULT_FROM_EMAIL\<close>: the setting of that name;
  \<^item> \<open>SignUpSerializer_data\<close>: the representation \<^verbatim>\<open>serializer.data\<close> of a
    created user (\<^verbatim>\<open>account/serializers.py\<close>).
\<close>

record env =
  now :: time
  db_fault :: "site \<Rightarrow> bool"
  make_password :: "string \<Rightarrow> string"
  check_password :: "string \<Rightarrow> string \<Rightarrow> bool"
  normalize_email :: "string \<Rightarrow> string"
  get_session_auth_hash :: "string \<Rightarrow> string"
  render_to_string :: "string \<Rightarrow> dict \<Rightarrow> string"
  get_access_token :: "dict \<Rightarrow> string"
  get_refresh_token :: string
  verify_token :: "string \<Rightarrow> bool"
  generate_otp :: int
  send_email :: "string \<Rightarrow> string \<Rightarrow> string \<Rightarrow> string list \<Rightarrow> string option"
  DEFAULT_FROM_EMAIL :: string
  SignUpSerializer_data :: "CustomUser \<Rightarrow> dict"

text \<open>
  What a serializer of \<^verbatim>\<open>account/serializers.py\<close> makes of the request's data:
  its field errors, or the validated data.
\<close>

datatype 'a validated = Errors dict | Validated 'a

section \<open>Exceptions and responses\<close>

datatype exn =
    DoesNotExist
  | MultipleObjectsReturned
  | DatabaseError
  | IntegrityError
  | ValueError string
  | TypeError string
  | ValidationError dict

record cookie =
  key :: string
  cvalue :: string
  max_age :: "int option"
  path :: string
  secure :: bool
  httponly :: bool
  samesite :: "string option"

record Response =
  data :: dict
  status :: nat
  cookies :: "cookie list"

text \<open>\<^verbatim>\<open>Response(data, status)\<close>; the status is 200 when none is given.\<close>

definition response :: "dict \<Rightarrow> nat \<Rightarrow> Response" where
  "response d s = \<lparr>data = d, status = s, cookies = []\<rparr>"

text \<open>
  \<^verbatim>\<open>response.set_cookie(key, value, secure=..., samesite=..., max_age=...)\<close>, with
  Django's defaults for the arguments the views do not pass. A cookie set again
  replaces the one of the same key. The \<^verbatim>\<open>expires\<close> attribute, which Django
  derives from \<^verbatim>\<open>max_age\<close> and the clock, is not modelled.
\<close>

definition set_cookie :: "Response \<Rightarrow> string \<Rightarrow> string \<Rightarrow> bool \<Rightarrow> string \<Rightarrow> int \<Rightarrow> Response" where
  "set_cookie r k v sec same age =
     r\<lparr>cookies := filter (\<lambda>c. key c \<noteq> k) (cookies r) @
        [\<lparr>key = k, cvalue = v, max_age = Some age, path = ''/'', secure = sec,
          httponly = False, samesite = Some same\<rparr>]\<rparr>"

text \<open>
  What a view does: it returns a response or raises, and leaves a state behind.
\<close>

type_synonym 'a result = "(exn + 'a) \<times> state"

section \<open>The database\<close>

text \<open>
  \<^verbatim>\<open>Model.objects.get(...)\<close>: the one row that matches; \<^verbatim>\<open>DoesNotExist\<close> when
  none does, \<^verbatim>\<open>MultipleObjectsReturned\<close> when several do.
\<close>

definition objects_get :: "('r \<Rightarrow> bool) \<Rightarrow> 'r list \<Rightarrow> exn + 'r" where
  "objects_get P rows =
     (case filter P rows of
        [] \<Rightarrow> Inl DoesNotExist
      | [r] \<Rightarrow> Inr r
      | _ \<Rightarrow> Inl MultipleObjectsReturned)"

text \<open>
  \<^verbatim>\<open>transaction.atomic()\<close>: when the block raises, the tables are as they were when
  the block was entered, and the exception goes on.
\<close>

definition atomic :: "(state \<Rightarrow> 'a result) \<Rightarrow> state \<Rightarrow> 'a result" where
  "atomic block st =
     (case block st of
        (Inl ex, st') \<Rightarrow>
          (Inl ex, st'\<lparr>users := users st, tokens := tokens st, otps := otps st,
                       user_seq := user_seq st, token_seq := token_seq st\<rparr>)
      | (Inr x, st') \<Rightarrow> (Inr x, st'))"

text \<open>
  \<^verbatim>\<open>instance.save()\<close> of a row that has a primary key: the row of that key is
  written (inserted when the table has none), \<open>updated_at\<close> is set to the time of
  the save (\<^verbatim>\<open>auto_now\<close>), and the unique columns are checked: the e-mail of a user
  (\<^verbatim>\<open>unique=True\<close>), the owner of a token and of an OTP record
  (\<^verbatim>\<open>OneToOneField\<close>).
\<close>

definition upsert :: "('r \<Rightarrow> int) \<Rightarrow> 'r \<Rightarrow> 'r list \<Rightarrow> 'r list" where
  "upsert pk_of r rows =
     (if list_ex (\<lambda>x. pk_of x = pk_of r) rows
      then map (\<lambda>x. if pk_of x = pk_of r then r else x) rows
      else rows @ [r])"

definition CustomUser_save :: "env \<Rightarrow> site \<Rightarrow> CustomUser \<Rightarrow> state \<Rightarrow> CustomUser result" where
  "CustomUser_save e l u st =
     (if db_fault e l then (Inl DatabaseError, st)
      else if list_ex (\<lambda>x. CustomUser.pk x \<noteq> CustomUser.pk u \<and> email x = email u) (users st)
      then (Inl IntegrityError, st)
      else let u' = u\<lparr>CustomUser.updated_at := now e\<rparr>
           in (Inr u', st\<lparr>users := upsert CustomUser.pk u' (users st)\<rparr>))"

definition Token_save :: "env \<Rightarrow> site \<Rightarrow> Token \<Rightarrow> state \<Rightarrow> Token result" where
  "Token_save e l t st =
     (if db_fault e l then (Inl DatabaseError, st)
      else if list_ex (\<lambda>x. Token.pk x \<noteq> Token.pk t \<and> Token.user_id x = Token.user_id t) (tokens st)
      then (Inl IntegrityError, st)
      else let t' = t\<lparr>Token.updated_at := now e\<rparr>
           in (Inr t', st\<lparr>tokens := upsert Token.pk t' (tokens st)\<rparr>))"

definition OTP_save :: "env \<Rightarrow> site \<Rightarrow> OTP \<Rightarrow> state \<Rightarrow> OTP result" where
  "OTP_save e l r st =
     (if db_fault e l then (Inl DatabaseError, st)
      else if list_ex (\<lambda>x. OTP.pk x \<noteq> OTP.pk r \<and> OTP.user_id x = OTP.user_id r) (otps st)
      then (Inl IntegrityError, st)
      else let r' = r\<lparr>OTP.updated_at := now e\<rparr>
           in (Inr r', st\<lparr>otps := upsert OTP.pk r' (otps st)\<rparr>))"

text \<open>
  \<^verbatim>\<open>row.user_id\<close>, the user a token or an OTP record belongs to: the foreign key
  is followed with a query by primary key.
\<close>

definition related_user :: "int \<Rightarrow> state \<Rightarrow> exn + CustomUser" where
  "related_user uid st = objects_get (\<lambda>u. CustomUser.pk u = uid) (users st)"

text \<open>
  Modelled from the spec: \<^verbatim>\<open>notify_user\<close> of \<^verbatim>\<open>notification/notify.py\<close>, which is
  not among the sources. The specification describes it as a fire-and-forget event
  sink: the event is published and the caller goes on.
\<close>

definition notify_user :: "int option \<Rightarrow> string \<Rightarrow> string \<Rightarrow> state \<Rightarrow> state" where
  "notify_user u k m st =
     st\<lparr>events := events st @ [\<lparr>recipient = u, kind = k, message = m\<rparr>]\<rparr>"

section \<open>Validating an OTP\<close>

text \<open>\<^verbatim>\<open>timezone.timedelta(minutes=m)\<close>, in microseconds.\<close>

definition timedelta_minutes :: "int \<Rightarrow> time" where
  "timedelta_minutes m = m * 60 * 1000000"

text \<open>
  \<^verbatim>\<open>ValidateOTPView.post\<close> (\<^verbatim>\<open>views.py\<close>, lines 244 to 280). The validated
  datum is the OTP as the integer that \<^verbatim>\<open>int(...)\<close> makes of it. The record is
  saved at line 268, before the atomic block of lines 270 to 272 is entered; the block
  holds the write of the user alone.
\<close>

definition ValidateOTPView_post :: "env \<Rightarrow> state \<Rightarrow> int validated \<Rightarrow> Response result" where
  "ValidateOTPView_post e st req =
     (case req of
        Errors errors \<Rightarrow>
          (Inr (response (dict_update [(''status'', JStr ''error'')] errors) 400), st)
      | Validated otp' \<Rightarrow>
          (case objects_get (\<lambda>r. generated_otp r = Some otp') (otps st) of
             Inl DoesNotExist \<Rightarrow>
               (Inr (response [(''status'', JStr ''error''), (''message'', JStr ''Invalid OTP'')] 404), st)
           | Inl ex \<Rightarrow> (Inl ex, st)
           | Inr user_otp \<Rightarrow>
               (let otp_time = now e - OTP.updated_at user_otp;
                    exp_time = timedelta_minutes 5
                in if otp_time > exp_time
                   then (Inr (response [(''status'', JStr ''error''), (''message'', JStr ''Expired OTP'')] 400), st)
                   else
                     (case (if generated_otp user_otp = Some otp'
                            then OTP_save e (views_py 268) (user_otp\<lparr>generated_otp := None\<rparr>) st
                            else (Inr user_otp, st)) of
                        (Inl ex, st1) \<Rightarrow> (Inl ex, st1)
                      | (Inr user_otp1, st1) \<Rightarrow>
                          (case atomic (\<lambda>s.
                                   case related_user (OTP.user_id user_otp1) s of
                                     Inl ex \<Rightarrow> (Inl ex, s)
                                   | Inr u \<Rightarrow> CustomUser_save e (views_py 272) (u\<lparr>email_verified := True\<rparr>) s) st1 of
                             (Inl ex, st2) \<Rightarrow> (Inl ex, st2)
                           | (Inr _, st2) \<Rightarrow>
                               (Inr (response [(''status'', JStr ''success''),
                                               (''message'', JStr ''OTP validated successful'')] 200), st2))))))"

section \<open>Signing up\<close>

text \<open>
  \<^verbatim>\<open>self.model(**kwargs)\<close>: a new instance has the default of every column, and each
  keyword argument sets the column of its name. A name that is no column raises
  \<^verbatim>\<open>TypeError\<close>, as in Django; so does, here, a value that the column cannot hold
  (Django rejects it when the row is saved).
\<close>

definition CustomUser_defaults :: CustomUser where
  "CustomUser_defaults =
     \<lparr>CustomUser.pk = 0, password = [], last_login = None, is_superuser = False,
      email = [], otp = None, first_name = [], last_name = [],
      business_name = None, individual_url = None, business = Some False,
      individual = Some False, email_verified = False, accepted_terms = False,
      is_active = True, is_staff = False, created_at = 0, updated_at = 0\<rparr>"

definition CustomUser_setattr :: "string \<Rightarrow> json \<Rightarrow> CustomUser \<Rightarrow> exn + CustomUser" where
  "CustomUser_setattr name v u =
     (if name = ''password'' then
        (case v of JStr s \<Rightarrow> Inr (u\<lparr>password := s\<rparr>) | _ \<Rightarrow> Inl (TypeError name))
      else if name = ''last_login'' then
        (case v of JNull \<Rightarrow> Inr (u\<lparr>last_login := None\<rparr>)
                 | JInt t \<Rightarrow> Inr (u\<lparr>last_login := Some t\<rparr>) | _ \<Rightarrow> Inl (TypeError name))
      else if name = ''is_superuser'' then
        (case v of JBool b \<Rightarrow> Inr (u\<lparr>is_superuser := b\<rparr>) | _ \<Rightarrow> Inl (TypeError name))
      else if name = ''email'' then
        (case v of JStr s \<Rightarrow> Inr (u\<lparr>email := s\<rparr>) | _ \<Rightarrow> Inl (TypeError name))
      else if name = ''otp'' then
        (case v of JNull \<Rightarrow> Inr (u\<lparr>otp := None\<rparr>)
                 | JInt n \<Rightarrow> Inr (u\<lparr>otp := Some n\<rparr>) | _ \<Rightarrow> Inl (TypeError name))
      else if name = ''first_name'' then
        (case v of JStr s \<Rightarrow> Inr (u\<lparr>first_name := s\<rparr>) | _ \<Rightarrow> Inl (TypeError name))
      else if name = ''last_name'' then
        (case v of JStr s \<Rightarrow> Inr (u\<lparr>last_name := s\<rparr>) | _ \<Rightarrow> Inl (TypeError name))
      else if name = ''business_name'' then
        (case v of JNull \<Rightarrow> Inr (u\<lparr>business_name := None\<rparr>)
                 | JStr s \<Rightarrow> Inr (u\<lparr>business_name := Some s\<rparr>) | _ \<Rightarrow> Inl (TypeError name))
      else if name = ''individual_url'' then
        (case v of JNull \<Rightarrow> Inr (u\<lparr>individual_url := None\<rparr>)
                 | JStr s \<Rightarrow> Inr (u\<lparr>individual_url := Some s\<rparr>) | _ \<Rightarrow> Inl (TypeError name))
      else if name = ''business'' then
        (case v of JNull \<Rightarrow> Inr (u\<lparr>business := None\<rparr>)
                 | JBool b \<Rightarrow> Inr (u\<lparr>business := Some b\<rparr>) | _ \<Rightarrow> Inl (TypeError name))
      else if name = ''individual'' then
        (case v of JNull \<Rightarrow> Inr (u\<lparr>individual := None\<rparr>)
                 | JBool b \<Rightarrow> Inr (u\<lparr>individual := Some b\<rparr>) | _ \<Rightarrow> Inl (TypeError name))
      else if name = ''email_verified'' then
        (case v of JBool b \<Rightarrow> Inr (u\<lparr>email_verified := b\<rparr>) | _ \<Rightarrow> Inl (TypeError name))
      else if name = ''accepted_terms'' then
        (case v of JBool b \<Rightarrow> Inr (u\<lparr>accepted_terms := b\<rparr>) | _ \<Rightarrow> Inl (TypeError name))
      else if name = ''is_active'' then
        (case v of JBool b \<Rightarrow> Inr (u\<lparr>is_active := b\<rparr>) | _ \<Rightarrow> Inl (TypeError name))
      else if name = ''is_staff'' then
        (case v of JBool b \<Rightarrow> Inr (u\<lparr>is_staff := b\<rparr>) | _ \<Rightarrow> Inl (TypeError name))
      else Inl (TypeError name))"

fun CustomUser_init :: "dict \<Rightarrow> CustomUser \<Rightarrow> exn + CustomUser" where
  "CustomUser_init [] u = Inr u"
| "CustomUser_init (kv # kwargs) u =
     (case CustomUser_setattr (fst kv) (snd kv) u of
        Inl ex \<Rightarrow> Inl ex
      | Inr u' \<Rightarrow> CustomUser_init kwargs u')"

text \<open>
  \<^verbatim>\<open>user.save()\<close> of an instance that has no primary key yet: the row is inserted
  under the next key of the sequence, \<open>created_at\<close> and \<open>updated_at\<close> are the time of
  the save, and the e-mail must be new (\<^verbatim>\<open>unique=True\<close>).
\<close>

definition CustomUser_insert :: "env \<Rightarrow> site \<Rightarrow> CustomUser \<Rightarrow> state \<Rightarrow> CustomUser result" where
  "CustomUser_insert e l u st =
     (if db_fault e l then (Inl DatabaseError, st)
      else if list_ex (\<lambda>x. email x = email u) (users st) then (Inl IntegrityError, st)
      else let u' = u\<lparr>CustomUser.pk := user_seq st + 1,
                       CustomUser.created_at := now e, CustomUser.updated_at := now e\<rparr>
           in (Inr u', st\<lparr>users := users st @ [u'], user_seq := user_seq st + 1\<rparr>))"

text \<open>
  \<^verbatim>\<open>CustomUserManager.create_user\<close> (\<^verbatim>\<open>models.py\<close>, lines 9 to 18).
  \<^verbatim>\<open>user.set_password(password)\<close> stores \<^verbatim>\<open>make_password(password)\<close>. The
  dictionary \<open>extra_fields\<close> holds the keyword arguments other than \<open>email\<close> and
  \<open>password\<close>, which Python binds to the two parameters.
\<close>

definition create_user :: "env \<Rightarrow> state \<Rightarrow> string \<Rightarrow> string \<Rightarrow> dict \<Rightarrow> CustomUser result" where
  "create_user e st email' password' extra_fields =
     (if email' = [] then (Inl (ValueError ''email must be available''), st)
      else
        (let email'' = normalize_email e email'
         in case CustomUser_init ((''email'', JStr email'') # extra_fields) CustomUser_defaults of
              Inl ex \<Rightarrow> (Inl ex, st)
            | Inr user \<Rightarrow>
                CustomUser_insert e (models_py 16) (user\<lparr>password := make_password e password'\<rparr>) st))"

text \<open>
  Modelled from the spec: \<^verbatim>\<open>SignUpSerializer\<close> of \<^verbatim>\<open>account/serializers.py\<close>, which
  is not among the sources. Section 4.2 of the specification: the input is the e-mail,
  the password, the profile fields and the acceptance of the terms, checked by
  declarative field rules; on success the user is created with a hashed password.
  So \<open>SignUpSerializer_fields\<close> are the fields a payload may hold besides \<open>email\<close>
  and \<open>password\<close>, with the values their columns take, a payload is valid when it
  holds a non-empty e-mail, a password and such fields only, and
  \<^verbatim>\<open>serializer.save()\<close> is \<^verbatim>\<open>create_user(**validated_data)\<close>.
\<close>

definition SignUpSerializer_field :: "string \<times> json \<Rightarrow> bool" where
  "SignUpSerializer_field kv =
     (if fst kv = ''first_name'' \<or> fst kv = ''last_name'' then
        (case snd kv of JStr s \<Rightarrow> True | _ \<Rightarrow> False)
      else if fst kv = ''business_name'' \<or> fst kv = ''individual_url'' then
        (case snd kv of JStr s \<Rightarrow> True | JNull \<Rightarrow> True | _ \<Rightarrow> False)
      else if fst kv = ''business'' \<or> fst kv = ''individual'' then
        (case snd kv of JBool b \<Rightarrow> True | JNull \<Rightarrow> True | _ \<Rightarrow> False)
      else if fst kv = ''accepted_terms'' then
        (case snd kv of JBool b \<Rightarrow> True | _ \<Rightarrow> False)
      else False)"

definition extra_of :: "dict \<Rightarrow> dict" where
  "extra_of validated_data =
     filter (\<lambda>kv. fst kv \<noteq> ''email'' \<and> fst kv \<noteq> ''password'') validated_data"

definition SignUpSerializer_valid :: "dict \<Rightarrow> bool" where
  "SignUpSerializer_valid validated_data =
     ((case map_of validated_data ''email'' of Some (JStr s) \<Rightarrow> s \<noteq> [] | _ \<Rightarrow> False) \<and>
      (case map_of validated_data ''password'' of Some (JStr s) \<Rightarrow> True | _ \<Rightarrow> False) \<and>
      list_all SignUpSerializer_field (extra_of validated_data))"

definition SignUpSerializer_save :: "env \<Rightarrow> state \<Rightarrow> dict \<Rightarrow> CustomUser result" where
  "SignUpSerializer_save e st validated_data =
     (case (map_of validated_data ''email'', map_of validated_data ''password'') of
        (Some (JStr email'), Some (JStr password')) \<Rightarrow>
          create_user e st email' password' (extra_of validated_data)
      | _ \<Rightarrow> (Inl (TypeError ''create_user''), st))"

text \<open>
  \<^verbatim>\<open>SignUpView.post\<close> (\<^verbatim>\<open>views.py\<close>, lines 46 to 57).
  \<^verbatim>\<open>is_valid(raise_exception=True)\<close> raises the field errors.
\<close>

definition SignUpView_post :: "env \<Rightarrow> state \<Rightarrow> dict validated \<Rightarrow> Response result" where
  "SignUpView_post e st req =
     (case req of
        Errors errors \<Rightarrow> (Inl (ValidationError errors), st)
      | Validated validated_data \<Rightarrow>
          (case SignUpSerializer_save e st validated_data of
             (Inl ex, st1) \<Rightarrow> (Inl ex, st1)
           | (Inr user, st1) \<Rightarrow>
               (Inr (response
                       (dict_update [(''status'', JStr ''success''),
                                     (''message'', JStr ''Account created successfully.'')]
                                    (SignUpSerializer_data e user))
                       201), st1)))"

section \<open>Signing in\<close>

text \<open>
  \<^verbatim>\<open>authenticate(username=..., password=...)\<close> of Django with its model backend:
  the user of that e-mail (\<^verbatim>\<open>USERNAME_FIELD\<close>), when the password checks against
  the stored hash and the user is active; \<open>None\<close> otherwise.
\<close>

definition authenticate :: "env \<Rightarrow> state \<Rightarrow> string \<Rightarrow> string \<Rightarrow> exn + CustomUser option" where
  "authenticate e st username password' =
     (case objects_get (\<lambda>u. email u = username) (users st) of
        Inl DoesNotExist \<Rightarrow> Inr None
      | Inl ex \<Rightarrow> Inl ex
      | Inr user \<Rightarrow>
          (if check_password e password' (password user) \<and> is_active user
           then Inr (Some user) else Inr None))"

text \<open>\<^verbatim>\<open>Token.objects.filter(...).delete()\<close> and \<^verbatim>\<open>Token.objects.create(...)\<close>.\<close>

definition Token_objects_filter_delete :: "env \<Rightarrow> site \<Rightarrow> (Token \<Rightarrow> bool) \<Rightarrow> state \<Rightarrow> unit result" where
  "Token_objects_filter_delete e l P st =
     (if db_fault e l then (Inl DatabaseError, st)
      else (Inr (), st\<lparr>tokens := filter (\<lambda>t. \<not> P t) (tokens st)\<rparr>))"

definition Token_objects_create :: "env \<Rightarrow> site \<Rightarrow> int \<Rightarrow> string \<Rightarrow> string \<Rightarrow> state \<Rightarrow> Token result" where
  "Token_objects_create e l uid access' refresh' st =
     (if db_fault e l then (Inl DatabaseError, st)
      else if list_ex (\<lambda>x. Token.user_id x = uid) (tokens st) then (Inl IntegrityError, st)
      else let t = \<lparr>Token.pk = token_seq st + 1, user_id = uid, access = access',
                     refresh = refresh', created_at = now e, updated_at = now e\<rparr>
           in (Inr t, st\<lparr>tokens := tokens st @ [t], token_seq := token_seq st + 1\<rparr>))"

text \<open>
  \<^verbatim>\<open>SignInView.post\<close> (\<^verbatim>\<open>views.py\<close>, lines 65 to 104). The validated data are
  the e-mail and the password.
\<close>

definition SignInView_post :: "env \<Rightarrow> state \<Rightarrow> (string \<times> string) validated \<Rightarrow> Response result" where
  "SignInView_post e st req =
     (case req of
        Errors errors \<Rightarrow> (Inl (ValidationError errors), st)
      | Validated cred \<Rightarrow>
          (case authenticate e st (fst cred) (snd cred) of
             Inl ex \<Rightarrow> (Inl ex, st)
           | Inr None \<Rightarrow>
               (Inr (response [(''status'', JStr ''error''),
                               (''message'', JStr ''Invalid account credentials'')] 400), st)
           | Inr (Some user) \<Rightarrow>
               (let access' = get_access_token e [(''user_id'', JInt (CustomUser.pk user))];
                    refresh' = get_refresh_token e
                in case Token_objects_filter_delete e (views_py 85)
                          (\<lambda>t. Token.user_id t = CustomUser.pk user) st of
                     (Inl ex, st1) \<Rightarrow> (Inl ex, st1)
                   | (Inr _, st1) \<Rightarrow>
                       (case Token_objects_create e (views_py 88) (CustomUser.pk user) access' refresh' st1 of
                          (Inl ex, st2) \<Rightarrow> (Inl ex, st2)
                        | (Inr _, st2) \<Rightarrow>
                            (Inr (set_cookie
                                    (response [(''status'', JStr ''success''),
                                               (''access_token'', JStr access')] 200)
                                    ''refresh_token'' refresh' True ''None'' 86400), st2)))))"

section \<open>Changing the password\<close>

text \<open>
  \<^verbatim>\<open>update_session_auth_hash(request, user)\<close>: the session takes the authentication
  hash of the user's new password.
\<close>

definition update_session_auth_hash :: "env \<Rightarrow> CustomUser \<Rightarrow> state \<Rightarrow> state" where
  "update_session_auth_hash e u st =
     st\<lparr>session_auth_hash := Some (get_session_auth_hash e (password u))\<rparr>"

text \<open>
  \<^verbatim>\<open>ChangePasswordView.post\<close> (\<^verbatim>\<open>views.py\<close>, lines 159 to 186). The view is
  behind \<^verbatim>\<open>IsAuthenticated\<close>: \<open>user\<close> is \<^verbatim>\<open>request.user\<close>, the row of the
  authenticated user. The validated data are the old and the new password.
\<close>

definition ChangePasswordView_post ::
    "env \<Rightarrow> state \<Rightarrow> CustomUser \<Rightarrow> (string \<times> string) validated \<Rightarrow> Response result" where
  "ChangePasswordView_post e st user req =
     (case req of
        Errors errors \<Rightarrow>
          (Inr (response (dict_update [(''status'', JStr ''error'')] errors) 400),
           notify_user (Some (CustomUser.pk user)) ''password-failure'' ''Password failed to change'' st)
      | Validated pw \<Rightarrow>
          (let old_password = fst pw; new_password = snd pw
           in if check_password e old_password (password user)
              then
                (case CustomUser_save e (views_py 170)
                        (user\<lparr>password := make_password e new_password\<rparr>) st of
                   (Inl ex, st1) \<Rightarrow> (Inl ex, st1)
                 | (Inr user1, st1) \<Rightarrow>
                     (Inr (response [(''status'', JStr ''success''),
                                     (''message'', JStr ''Password changed successfully.'')] 200),
                      notify_user (Some (CustomUser.pk user)) ''password-success''
                        ''Password changed successfully.'' (update_session_auth_hash e user1 st1)))
              else
                (Inr (response [(''status'', JStr ''error''),
                                (''message'', JStr ''Incorrect old password.'')] 400),
                 notify_user (Some (CustomUser.pk user)) ''password-failure''
                   ''Incorrect old password.'' st)))"

section \<open>Sending a new OTP\<close>


section \<open>Refreshing the tokens\<close>

text \<open>
  \<^verbatim>\<open>RefreshTokenView.get\<close> (\<^verbatim>\<open>views.py\<close>, lines 288 to 324). The argument is
  \<^verbatim>\<open>request.COOKIES.get('refresh_token')\<close>; without the cookie the lookup is for
  \<^verbatim>\<open>refresh=None\<close>, which no row matches (the column is not nullable), so
  \<^verbatim>\<open>Token.DoesNotExist\<close> is raised and caught as for a value no row holds.
\<close>

definition RefreshTokenView_get :: "env \<Rightarrow> state \<Rightarrow> string option \<Rightarrow> Response result" where
  "RefreshTokenView_get e st refresh_token_cookie =
     (case refresh_token_cookie of
        None \<Rightarrow>
          (Inr (response [(''status'', JStr ''error''),
                          (''message'', JStr ''Refresh token not found.'')] 400), st)
      | Some c \<Rightarrow>
          (case objects_get (\<lambda>t. refresh t = c) (tokens st) of
             Inl DoesNotExist \<Rightarrow>
               (Inr (response [(''status'', JStr ''error''),
                               (''message'', JStr ''Refresh token not found.'')] 400), st)
           | Inl ex \<Rightarrow> (Inl ex, st)
           | Inr active_token \<Rightarrow>
               (if \<not> verify_token e c
                then (Inr (response [(''status'', JStr ''error''),
                                     (''message'', JStr ''Refresh token invalid or expired.'')] 400), st)
                else
                  (let access' = get_access_token e [(''user_id'', JInt (Token.pk active_token))];
                       refresh' = get_refresh_token e
                   in case Token_save e (views_py 312)
                             (active_token\<lparr>access := access', refresh := refresh'\<rparr>) st of
                        (Inl ex, st1) \<Rightarrow> (Inl ex, st1)
                      | (Inr _, st1) \<Rightarrow>
                          (Inr (set_cookie
                                  (response [(''status'', JStr ''success''),
                                             (''access_token'', JStr access')] 200)
                                  ''refresh_token'' refresh' True ''None'' 86400), st1)))))"

section \<open>Example data\<close>

text \<open>
  One user with an OTP record and a token pair, and collaborators that can be computed
  with: the hasher prefixes the password, the clock reads 1000 seconds, the OTP record
  was last written at 900 seconds.
\<close>

definition example_env :: env where
  "example_env =
     \<lparr>now = 1000000000,
      db_fault = (\<lambda>l. False),
      make_password = (\<lambda>raw. ''pbkdf2$'' @ raw),
      check_password = (\<lambda>raw encoded. encoded = ''pbkdf2$'' @ raw),
      normalize_email = (\<lambda>x. x),
      get_session_auth_hash = (\<lambda>encoded. ''hmac$'' @ encoded),
      render_to_string = (\<lambda>template context. template),
      get_access_token = (\<lambda>claims. if claims = [(''user_id'', JInt 7)] then ''access.7''
                                   else if claims = [(''user_id'', JInt 3)] then ''access.3''
                                   else ''access''),
      get_refresh_token = ''refresh.new'',
      verify_token = (\<lambda>token. token = ''refresh.old''),
      generate_otp = 654321,
      send_email = (\<lambda>subject body sender recipients. None),
      DEFAULT_FROM_EMAIL = ''noreply@example.com'',
      SignUpSerializer_data = (\<lambda>u. [(''email'', JStr (email u))])\<rparr>"

definition example_user :: CustomUser where
  "example_user =
     \<lparr>CustomUser.pk = 3, password = ''pbkdf2$Secret123'', last_login = None, is_superuser = False,
      email = ''a@b.com'', otp = None, first_name = ''A'', last_name = ''B'',
      business_name = None, individual_url = None, business = Some False,
      individual = Some False, email_verified = False, accepted_terms = True,
      is_active = True, is_staff = False, created_at = 0, updated_at = 0\<rparr>"

definition example_otp :: OTP where
  "example_otp = \<lparr>OTP.pk = 5, user_id = 3, generated_otp = Some 123456,
                   created_at = 0, updated_at = 900000000\<rparr>"

definition example_token :: Token where
  "example_token = \<lparr>Token.pk = 7, user_id = 3, access = ''access.old'', refresh = ''refresh.old'',
                     created_at = 0, updated_at = 0\<rparr>"

definition example_state :: state where
  "example_state =
     \<lparr>users = [example_user], tokens = [example_token], otps = [example_otp],
      user_seq = 3, token_seq = 7, events = [], session_auth_hash = None\<rparr>"

text \<open>The sign-up payload of the specification's example, for a new e-mail.\<close>

definition example_payload :: dict where
  "example_payload =
     [(''email'', JStr ''c@d.com''), (''password'', JStr ''Secret123''),
      (''first_name'', JStr ''C''), (''last_name'', JStr ''D''), (''accepted_terms'', JBool True)]"

section \<open>Lookups\<close>

lemma objects_get_Nil: "(objects_get P rows = Inl DoesNotExist) = (filter P rows = [])"
  by (auto simp: objects_get_def split: list.splits)

lemma objects_get_cases:
  "objects_get P rows = Inl DoesNotExist \<or> objects_get P rows = Inl MultipleObjectsReturned
     \<or> (\<exists>r. objects_get P rows = Inr r)"
  by (auto simp: objects_get_def split: list.splits)

lemma objects_get_Inr: "(objects_get P rows = Inr r) = (filter P rows = [r])"
  by (auto simp: objects_get_def split: list.splits)

lemma filter_distinct_key:
  "distinct (map f xs) \<Longrightarrow> x \<in> set xs \<Longrightarrow> filter (\<lambda>y. f y = f x) xs = [x]"
proof (induction xs)
  case Nil
  then show ?case by simp
next
  case (Cons a xs)
  show ?case
  proof (cases "a = x")
    case True
    with Cons.prems have "\<forall>y \<in> set xs. f y \<noteq> f x" by (auto simp: image_iff)
    then have "filter (\<lambda>y. f y = f x) xs = []" by (simp add: filter_empty_conv)
    with True show ?thesis by simp
  next
    case False
    with Cons.prems have "x \<in> set xs" and "f a \<noteq> f x" by (auto simp: image_iff)
    with Cons show ?thesis by simp
  qed
qed

section \<open>Properties of OTP validation\<close>

text \<open>
  C8. A validate-OTP request whose OTP value no OTP record holds is answered with
  HTTP 404 and the body \<^verbatim>\<open>{status: "error", message: "Invalid OTP"}\<close>, and the
  state is left as it was. The lookup is by value over the whole table, whoever owns
  the record: the answer is this one exactly when no record of the table holds the
  value.
\<close>

theorem ValidateOTPView_unknown_otp:
  "(ValidateOTPView_post e st (Validated v) =
      (Inr \<lparr>data = [(''status'', JStr ''error''), (''message'', JStr ''Invalid OTP'')],
            status = 404, cookies = []\<rparr>, st))
   = (\<forall>r \<in> set (otps st). generated_otp r \<noteq> Some v)"
proof -
  have nil: "(filter (\<lambda>r. generated_otp r = Some v) (otps st) = []) = (\<forall>r \<in> set (otps st). generated_otp r \<noteq> Some v)"
    by (simp add: filter_empty_conv)
  show ?thesis
    using objects_get_cases [of "\<lambda>r. generated_otp r = Some v" "otps st"]
    unfolding nil [symmetric] objects_get_Nil [symmetric]
    by (auto simp: ValidateOTPView_post_def response_def Let_def split: sum.splits exn.splits prod.splits)
qed

theorem ValidateOTPView_unknown_otp_witness:
  "ValidateOTPView_post example_env example_state (Validated 111111) =
      (Inr \<lparr>data = [(''status'', JStr ''error''), (''message'', JStr ''Invalid OTP'')],
            status = 404, cookies = []\<rparr>, example_state)
   \<and> ValidateOTPView_post example_env example_state (Validated 123456) \<noteq>
      (Inr \<lparr>data = [(''status'', JStr ''error''), (''message'', JStr ''Invalid OTP'')],
            status = 404, cookies = []\<rparr>, example_state)"
  using ValidateOTPView_unknown_otp [of example_env example_state 111111]
        ValidateOTPView_unknown_otp [of example_env example_state 123456]
  by (simp add: example_state_def example_otp_def)

text \<open>
  C4. When the lookup finds the record, a request made more than five minutes
  (300000000 microseconds) after the record's \<open>updated_at\<close> is answered with HTTP 400
  and the message \<^verbatim>\<open>Expired OTP\<close>, the state left as it was; and a request answered
  with HTTP 200 was made at most five minutes after it.
\<close>

theorem ValidateOTPView_expiry_window:
  assumes "objects_get (\<lambda>r. generated_otp r = Some v) (otps st) = Inr r"
  shows "(timedelta_minutes 5 < now e - OTP.updated_at r \<longrightarrow>
            ValidateOTPView_post e st (Validated v) =
              (Inr \<lparr>data = [(''status'', JStr ''error''), (''message'', JStr ''Expired OTP'')],
                    status = 400, cookies = []\<rparr>, st))
       \<and> (\<forall>resp st'. ValidateOTPView_post e st (Validated v) = (Inr resp, st') \<longrightarrow> status resp = 200
            \<longrightarrow> now e - OTP.updated_at r \<le> timedelta_minutes 5)"
  using assms
  by (auto simp: ValidateOTPView_post_def response_def Let_def split: sum.splits exn.splits prod.splits if_splits)


theorem ValidateOTPView_expiry_window_witness:
  "objects_get (\<lambda>r. generated_otp r = Some 123456) (otps example_state) = Inr example_otp
   \<and> timedelta_minutes 5 < now (example_env\<lparr>now := 1200000001\<rparr>) - OTP.updated_at example_otp
   \<and> ValidateOTPView_post (example_env\<lparr>now := 1200000001\<rparr>) example_state (Validated 123456) =
        (Inr \<lparr>data = [(''status'', JStr ''error''), (''message'', JStr ''Expired OTP'')],
              status = 400, cookies = []\<rparr>, example_state)
   \<and> status (projr (fst (ValidateOTPView_post example_env example_state (Validated 123456)))) = 200
   \<and> now example_env - OTP.updated_at example_otp \<le> timedelta_minutes 5"
proof -
  have found: "objects_get (\<lambda>r. generated_otp r = Some 123456) (otps example_state) = Inr example_otp"
    by (simp add: objects_get_def example_state_def example_otp_def)
  have late: "timedelta_minutes 5 < now (example_env\<lparr>now := 1200000001\<rparr>) - OTP.updated_at example_otp"
    by (simp add: timedelta_minutes_def example_env_def example_otp_def)
  have ok: "ValidateOTPView_post example_env example_state (Validated 123456) =
      (Inr \<lparr>data = [(''status'', JStr ''success''), (''message'', JStr ''OTP validated successful'')],
            status = 200, cookies = []\<rparr>,
       example_state\<lparr>otps := [example_otp\<lparr>generated_otp := None, OTP.updated_at := 1000000000\<rparr>],
                     users := [example_user\<lparr>email_verified := True, CustomUser.updated_at := 1000000000\<rparr>]\<rparr>)"
    by (simp add: ValidateOTPView_post_def objects_get_def OTP_save_def CustomUser_save_def atomic_def
          related_user_def upsert_def response_def timedelta_minutes_def Let_def
          example_env_def example_state_def example_otp_def example_user_def)
  from ValidateOTPView_expiry_window [OF found, of "example_env\<lparr>now := 1200000001\<rparr>"]
       ValidateOTPView_expiry_window [OF found, of example_env]
       found late ok
  show ?thesis by simp
qed

text \<open>
  The comparison is \<^verbatim>\<open>otp_time > exp_time\<close>: at five minutes to the microsecond
  the OTP is accepted, one microsecond later it has expired.
\<close>

lemma ValidateOTPView_boundary:
  "fst (ValidateOTPView_post (example_env\<lparr>now := 1200000000\<rparr>) example_state (Validated 123456)) =
     Inr \<lparr>data = [(''status'', JStr ''success''), (''message'', JStr ''OTP validated successful'')],
          status = 200, cookies = []\<rparr>"
  "fst (ValidateOTPView_post (example_env\<lparr>now := 1200000001\<rparr>) example_state (Validated 123456)) =
     Inr \<lparr>data = [(''status'', JStr ''error''), (''message'', JStr ''Expired OTP'')],
          status = 400, cookies = []\<rparr>"
  by (simp_all add: ValidateOTPView_post_def objects_get_def OTP_save_def CustomUser_save_def atomic_def
        related_user_def upsert_def response_def timedelta_minutes_def Let_def
        example_env_def example_state_def example_otp_def example_user_def)

text \<open>
  C1. Clearing the OTP and setting \<open>email_verified\<close> are not one atomic step. The
  record is saved at line 268, outside the block of
  \<^verbatim>\<open>transaction.atomic()\<close>, which holds the write of the user alone. When the
  write of the user fails, the request raises, the OTP is cleared for good and the
  user is still unverified.
\<close>

theorem ValidateOTPView_not_atomic:
  "ValidateOTPView_post (example_env\<lparr>db_fault := (\<lambda>l. l = views_py 272)\<rparr>) example_state
       (Validated 123456) =
     (Inl DatabaseError,
      example_state\<lparr>otps := [example_otp\<lparr>generated_otp := None, OTP.updated_at := 1000000000\<rparr>]\<rparr>)
   \<and> map generated_otp (otps (snd (ValidateOTPView_post
         (example_env\<lparr>db_fault := (\<lambda>l. l = views_py 272)\<rparr>) example_state (Validated 123456)))) = [None]
   \<and> map email_verified (users (snd (ValidateOTPView_post
         (example_env\<lparr>db_fault := (\<lambda>l. l = views_py 272)\<rparr>) example_state (Validated 123456)))) = [False]"
  by (simp add: ValidateOTPView_post_def objects_get_def OTP_save_def CustomUser_save_def atomic_def
        related_user_def upsert_def response_def timedelta_minutes_def Let_def
        example_env_def example_state_def example_otp_def example_user_def)

section \<open>Properties of sign-in\<close>

text \<open>
  The e-mail column is unique, so at most one user has a given e-mail; with correct
  credentials \<^verbatim>\<open>authenticate\<close> gives that user when the user is active, and it
  gives \<open>None\<close> when no active user of that e-mail passes the password check.
\<close>

lemma authenticate_correct:
  assumes "distinct (map email (users st))" and "user \<in> set (users st)"
    and "check_password e pw (password user)" and "is_active user"
  shows "authenticate e st (email user) pw = Inr (Some user)"
proof -
  have "filter (\<lambda>u. email u = email user) (users st) = [user]"
    using assms(1,2) by (rule filter_distinct_key)
  then have "objects_get (\<lambda>u. email u = email user) (users st) = Inr user"
    by (simp add: objects_get_Inr)
  with assms(3,4) show ?thesis by (simp add: authenticate_def)
qed

lemma authenticate_wrong:
  assumes "distinct (map email (users st))"
    and "\<forall>u \<in> set (users st). email u = em \<longrightarrow> \<not> (check_password e pw (password u) \<and> is_active u)"
  shows "authenticate e st em pw = Inr None"
proof (cases "\<exists>u \<in> set (users st). email u = em")
  case True
  then obtain u where u: "u \<in> set (users st)" "email u = em" by blast
  have "filter (\<lambda>x. email x = email u) (users st) = [u]"
    using assms(1) u(1) by (rule filter_distinct_key)
  with u(2) have "objects_get (\<lambda>x. email x = em) (users st) = Inr u"
    by (simp add: objects_get_Inr)
  moreover from assms(2) u have "\<not> (check_password e pw (password u) \<and> is_active u)" by blast
  ultimately show ?thesis by (auto simp: authenticate_def)
next
  case False
  then have "filter (\<lambda>x. email x = em) (users st) = []" by (simp add: filter_empty_conv)
  then have "objects_get (\<lambda>x. email x = em) (users st) = Inl DoesNotExist"
    by (simp add: objects_get_Nil)
  then show ?thesis by (simp add: authenticate_def)
qed

lemma SignInView_post_success:
  assumes "authenticate e st em pw = Inr (Some user)"
    and "\<not> db_fault e (views_py 85)" and "\<not> db_fault e (views_py 88)"
  shows "SignInView_post e st (Validated (em, pw)) =
     (Inr \<lparr>data = [(''status'', JStr ''success''),
                   (''access_token'', JStr (get_access_token e [(''user_id'', JInt (CustomUser.pk user))]))],
           status = 200,
           cookies = [\<lparr>key = ''refresh_token'', cvalue = get_refresh_token e, max_age = Some 86400,
                       path = ''/'', secure = True, httponly = False, samesite = Some ''None''\<rparr>]\<rparr>,
      st\<lparr>tokens := filter (\<lambda>t. Token.user_id t \<noteq> CustomUser.pk user) (tokens st) @
             [\<lparr>Token.pk = token_seq st + 1, user_id = CustomUser.pk user,
               access = get_access_token e [(''user_id'', JInt (CustomUser.pk user))],
               refresh = get_refresh_token e, created_at = now e, updated_at = now e\<rparr>],
          token_seq := token_seq st + 1\<rparr>)"
  using assms
  by (simp add: SignInView_post_def Token_objects_filter_delete_def Token_objects_create_def
        set_cookie_def response_def Let_def list_ex_iff)

text \<open>
  C3. After a sign-in with the correct credentials of an active user that the
  database carries out, the token table holds, for that user, the one row created by
  the request, with the freshly issued access and refresh values: the rows the user
  had are gone, the rows of the other users are as they were. The user must be
  active: \<^verbatim>\<open>authenticate\<close> gives \<open>None\<close> for a user whose \<open>is_active\<close> is
  false, whatever the password.
\<close>

theorem SignInView_one_token:
  assumes "distinct (map email (users st))" and "user \<in> set (users st)"
    and "check_password e pw (password user)" and "is_active user"
    and "\<not> db_fault e (views_py 85)" and "\<not> db_fault e (views_py 88)"
  shows "tokens (snd (SignInView_post e st (Validated (email user, pw)))) =
           filter (\<lambda>t. Token.user_id t \<noteq> CustomUser.pk user) (tokens st) @
             [\<lparr>Token.pk = token_seq st + 1, user_id = CustomUser.pk user,
               access = get_access_token e [(''user_id'', JInt (CustomUser.pk user))],
               refresh = get_refresh_token e, created_at = now e, updated_at = now e\<rparr>]
       \<and> filter (\<lambda>t. Token.user_id t = CustomUser.pk user)
            (tokens (snd (SignInView_post e st (Validated (email user, pw))))) =
             [\<lparr>Token.pk = token_seq st + 1, user_id = CustomUser.pk user,
               access = get_access_token e [(''user_id'', JInt (CustomUser.pk user))],
               refresh = get_refresh_token e, created_at = now e, updated_at = now e\<rparr>]
       \<and> (\<exists>resp. fst (SignInView_post e st (Validated (email user, pw))) = Inr resp \<and> status resp = 200)"
proof -
  have auth: "authenticate e st (email user) pw = Inr (Some user)"
    using assms(1-4) by (rule authenticate_correct)
  have none: "filter (\<lambda>t. Token.user_id t = CustomUser.pk user)
                (filter (\<lambda>t. Token.user_id t \<noteq> CustomUser.pk user) (tokens st)) = []"
    by (simp add: filter_empty_conv)
  show ?thesis
    unfolding SignInView_post_success [OF auth assms(5,6)]
    using none by simp
qed

theorem SignInView_one_token_witness:
  "tokens (snd (SignInView_post example_env example_state (Validated (''a@b.com'', ''Secret123'')))) =
     [\<lparr>Token.pk = 8, user_id = 3, access = ''access.3'', refresh = ''refresh.new'',
       created_at = 1000000000, updated_at = 1000000000\<rparr>]"
proof -
  have h1: "distinct (map email (users example_state))"
    by (simp add: example_state_def)
  have h2: "example_user \<in> set (users example_state)"
    by (simp add: example_state_def)
  have h3: "check_password example_env ''Secret123'' (password example_user)"
    by (simp add: example_env_def example_user_def)
  have h4: "is_active example_user"
    by (simp add: example_user_def)
  have h5: "\<not> db_fault example_env (views_py 85)" and h6: "\<not> db_fault example_env (views_py 88)"
    by (simp_all add: example_env_def)
  from SignInView_one_token [OF h1 h2 h3 h4 h5 h6]
  show ?thesis
    by (simp add: example_env_def example_state_def example_user_def example_token_def)
qed

text \<open>
  Without that condition the property fails. A user who is not active signs in with
  the password that checks against the stored hash: the answer is HTTP 400, no token
  row is created, and the token table holds no row for the user.
\<close>

theorem SignInView_inactive_user_counterexample:
  "example_user\<lparr>is_active := False\<rparr> \<in>
       set (users (example_state\<lparr>users := [example_user\<lparr>is_active := False\<rparr>], tokens := []\<rparr>))
   \<and> email (example_user\<lparr>is_active := False\<rparr>) = ''a@b.com''
   \<and> check_password example_env ''Secret123'' (password (example_user\<lparr>is_active := False\<rparr>))
   \<and> SignInView_post example_env
         (example_state\<lparr>users := [example_user\<lparr>is_active := False\<rparr>], tokens := []\<rparr>)
         (Validated (''a@b.com'', ''Secret123'')) =
       (Inr \<lparr>data = [(''status'', JStr ''error''), (''message'', JStr ''Invalid account credentials'')],
             status = 400, cookies = []\<rparr>,
        example_state\<lparr>users := [example_user\<lparr>is_active := False\<rparr>], tokens := []\<rparr>)
   \<and> filter (\<lambda>t. Token.user_id t = CustomUser.pk (example_user\<lparr>is_active := False\<rparr>))
         (tokens (snd (SignInView_post example_env
            (example_state\<lparr>users := [example_user\<lparr>is_active := False\<rparr>], tokens := []\<rparr>)
            (Validated (''a@b.com'', ''Secret123''))))) = []"
  by (simp add: SignInView_post_def authenticate_def objects_get_def response_def
        example_env_def example_state_def example_user_def)

text \<open>
  C5. A sign-in whose credentials do not authenticate (no user of that e-mail, or a
  password that fails the check) is answered with HTTP 400 and the message
  \<^verbatim>\<open>Invalid account credentials\<close>, and the state, the token table in it, is left
  as it was.
\<close>

theorem SignInView_invalid_credentials:
  assumes "distinct (map email (users st))"
    and "\<forall>u \<in> set (users st). email u = em \<longrightarrow> \<not> (check_password e pw (password u) \<and> is_active u)"
  shows "SignInView_post e st (Validated (em, pw)) =
     (Inr \<lparr>data = [(''status'', JStr ''error''), (''message'', JStr ''Invalid account credentials'')],
           status = 400, cookies = []\<rparr>, st)"
  using authenticate_wrong [OF assms]
  by (simp add: SignInView_post_def response_def)

theorem SignInView_invalid_credentials_witness:
  "SignInView_post example_env example_state (Validated (''a@b.com'', ''wrong'')) =
     (Inr \<lparr>data = [(''status'', JStr ''error''), (''message'', JStr ''Invalid account credentials'')],
           status = 400, cookies = []\<rparr>, example_state)
   \<and> SignInView_post example_env example_state (Validated (''nobody@b.com'', ''Secret123'')) =
     (Inr \<lparr>data = [(''status'', JStr ''error''), (''message'', JStr ''Invalid account credentials'')],
           status = 400, cookies = []\<rparr>, example_state)"
proof -
  have h1: "distinct (map email (users example_state))"
    by (simp add: example_state_def)
  have h2: "\<forall>u \<in> set (users example_state). email u = ''a@b.com'' \<longrightarrow>
              \<not> (check_password example_env ''wrong'' (password u) \<and> is_active u)"
    by (simp add: example_state_def example_user_def example_env_def)
  have h3: "\<forall>u \<in> set (users example_state). email u = ''nobody@b.com'' \<longrightarrow>
              \<not> (check_password example_env ''Secret123'' (password u) \<and> is_active u)"
    by (simp add: example_state_def example_user_def example_env_def)
  from SignInView_invalid_credentials [OF h1 h2] SignInView_invalid_credentials [OF h1 h3]
  show ?thesis by simp
qed

text \<open>
  C6. The response of a successful sign-in has the access token in its body and sets
  the refresh token as the cookie \<^verbatim>\<open>refresh_token\<close>, with \<^verbatim>\<open>Secure\<close>,
  \<^verbatim>\<open>SameSite=None\<close> and \<^verbatim>\<open>Max-Age=86400\<close>.
\<close>

theorem SignInView_response:
  assumes "distinct (map email (users st))" and "user \<in> set (users st)"
    and "check_password e pw (password user)" and "is_active user"
    and "\<not> db_fault e (views_py 85)" and "\<not> db_fault e (views_py 88)"
  shows "fst (SignInView_post e st (Validated (email user, pw))) =
     Inr \<lparr>data = [(''status'', JStr ''success''),
                  (''access_token'', JStr (get_access_token e [(''user_id'', JInt (CustomUser.pk user))]))],
          status = 200,
          cookies = [\<lparr>key = ''refresh_token'', cvalue = get_refresh_token e, max_age = Some 86400,
                      path = ''/'', secure = True, httponly = False, samesite = Some ''None''\<rparr>]\<rparr>"
proof -
  have auth: "authenticate e st (email user) pw = Inr (Some user)"
    using assms(1-4) by (rule authenticate_correct)
  show ?thesis
    unfolding SignInView_post_success [OF auth assms(5,6)] by simp
qed

theorem SignInView_response_witness:
  "fst (SignInView_post example_env example_state (Validated (''a@b.com'', ''Secret123''))) =
     Inr \<lparr>data = [(''status'', JStr ''success''), (''access_token'', JStr ''access.3'')],
          status = 200,
          cookies = [\<lparr>key = ''refresh_token'', cvalue = ''refresh.new'', max_age = Some 86400,
                      path = ''/'', secure = True, httponly = False, samesite = Some ''None''\<rparr>]\<rparr>"
proof -
  have h1: "distinct (map email (users example_state))"
    by (simp add: example_state_def)
  have h2: "example_user \<in> set (users example_state)"
    by (simp add: example_state_def)
  have h3: "check_password example_env ''Secret123'' (password example_user)"
    by (simp add: example_env_def example_user_def)
  have h4: "is_active example_user"
    by (simp add: example_user_def)
  have h5: "\<not> db_fault example_env (views_py 85)" and h6: "\<not> db_fault example_env (views_py 88)"
    by (simp_all add: example_env_def)
  from SignInView_response [OF h1 h2 h3 h4 h5 h6]
  show ?thesis
    by (simp add: example_env_def example_user_def)
qed

section \<open>Saving a row that is in its table\<close>

text \<open>
  A row that a lookup returned is in the table. When the owners of the rows are
  distinct (\<^verbatim>\<open>OneToOneField\<close>), no other row has the owner of that row, so saving
  it passes the check of the unique column, and the save rewrites the row under its
  key.
\<close>

lemma objects_get_member: "objects_get P rows = Inr r \<Longrightarrow> r \<in> set rows"
proof -
  assume "objects_get P rows = Inr r"
  then have "filter P rows = [r]" by (simp add: objects_get_Inr)
  then have "r \<in> set (filter P rows)" by simp
  then show ?thesis by simp
qed

lemma distinct_key_no_other:
  assumes "distinct (map f xs)" and "r \<in> set xs"
  shows "\<not> list_ex (\<lambda>x. g x \<noteq> g r \<and> f x = f r) xs"
proof -
  have "inj_on f (set xs)" using assms(1) by (simp add: distinct_map)
  with assms(2) have "\<forall>x \<in> set xs. f x = f r \<longrightarrow> x = r" by (auto dest: inj_onD)
  then show ?thesis by (auto simp: list_ex_iff)
qed

lemma upsert_present:
  assumes "r \<in> set rows" and "pk_of r' = pk_of r"
  shows "upsert pk_of r' rows = map (\<lambda>x. if pk_of x = pk_of r then r' else x) rows"
    and "r' \<in> set (upsert pk_of r' rows)"
proof -
  from assms have ex: "list_ex (\<lambda>x. pk_of x = pk_of r') rows" by (auto simp: list_ex_iff)
  then show "upsert pk_of r' rows = map (\<lambda>x. if pk_of x = pk_of r then r' else x) rows"
    using assms(2) by (simp add: upsert_def)
  from assms show "r' \<in> set (upsert pk_of r' rows)"
    using ex by (auto simp: upsert_def image_iff)
qed

section \<open>Properties of the password change\<close>

text \<open>
  C7. A change-password request of an authenticated user whose old password does not
  check against the stored hash is answered with HTTP 400, and the user table, the
  stored hash in it, is as it was; the one effect is the notification of the failure.
\<close>

theorem ChangePasswordView_wrong_old_password:
  assumes "\<not> check_password e old_password (password user)"
  shows "ChangePasswordView_post e st user (Validated (old_password, new_password)) =
     (Inr \<lparr>data = [(''status'', JStr ''error''), (''message'', JStr ''Incorrect old password.'')],
           status = 400, cookies = []\<rparr>,
      st\<lparr>events := events st @ [\<lparr>recipient = Some (CustomUser.pk user), kind = ''password-failure'',
                                  message = ''Incorrect old password.''\<rparr>]\<rparr>)
   \<and> users (snd (ChangePasswordView_post e st user (Validated (old_password, new_password)))) = users st"
  using assms
  by (simp add: ChangePasswordView_post_def response_def notify_user_def Let_def)

theorem ChangePasswordView_wrong_old_password_witness:
  "\<not> check_password example_env ''Wrong'' (password example_user)
   \<and> fst (ChangePasswordView_post example_env example_state example_user (Validated (''Wrong'', ''New456''))) =
       Inr \<lparr>data = [(''status'', JStr ''error''), (''message'', JStr ''Incorrect old password.'')],
            status = 400, cookies = []\<rparr>
   \<and> map password (users (snd (ChangePasswordView_post example_env example_state example_user
         (Validated (''Wrong'', ''New456''))))) = [''pbkdf2$Secret123'']"
proof -
  have h: "\<not> check_password example_env ''Wrong'' (password example_user)"
    by (simp add: example_env_def example_user_def)
  from ChangePasswordView_wrong_old_password [OF h, of example_state "''New456''"] h
  show ?thesis by (simp add: example_state_def example_user_def)
qed

section \<open>Properties of resending an OTP\<close>



section \<open>Properties of the token refresh\<close>

text \<open>
  C2. A refresh request whose cookie is the refresh value of a token row, and passes
  the verification, is answered with an access token minted from the claims
  \<^verbatim>\<open>{user_id: active_token.id}\<close>: the key of the token row itself, not
  \<open>user_id\<close> of the row, the key of the user who owns it. In the example the row
  has the key 7 and belongs to the user 3, and the token issued is the one for 7.
\<close>

theorem RefreshTokenView_claims_token_pk:
  assumes found: "objects_get (\<lambda>t. refresh t = c) (tokens st) = Inr t"
    and one: "distinct (map Token.user_id (tokens st))"
    and valid: "verify_token e c"
    and nofault: "\<not> db_fault e (views_py 312)"
  shows "RefreshTokenView_get e st (Some c) =
     (Inr \<lparr>data = [(''status'', JStr ''success''),
                   (''access_token'', JStr (get_access_token e [(''user_id'', JInt (Token.pk t))]))],
           status = 200,
           cookies = [\<lparr>key = ''refresh_token'', cvalue = get_refresh_token e, max_age = Some 86400,
                       path = ''/'', secure = True, httponly = False, samesite = Some ''None''\<rparr>]\<rparr>,
      st\<lparr>tokens := map (\<lambda>x. if Token.pk x = Token.pk t
                             then t\<lparr>access := get_access_token e [(''user_id'', JInt (Token.pk t))],
                                    refresh := get_refresh_token e, Token.updated_at := now e\<rparr>
                             else x) (tokens st)\<rparr>)"
proof -
  let ?t' = "t\<lparr>access := get_access_token e [(''user_id'', JInt (Token.pk t))],
               refresh := get_refresh_token e, Token.updated_at := now e\<rparr>"
  have mem: "t \<in> set (tokens st)" using found by (rule objects_get_member)
  have noother: "\<not> list_ex (\<lambda>x. Token.pk x \<noteq> Token.pk t \<and> Token.user_id x = Token.user_id t) (tokens st)"
    using one mem by (rule distinct_key_no_other)
  have ups: "upsert Token.pk ?t' (tokens st) = map (\<lambda>x. if Token.pk x = Token.pk t then ?t' else x) (tokens st)"
    using upsert_present(1) [OF mem, of Token.pk ?t'] by simp
  have save: "Token_save e (views_py 312)
                (t\<lparr>access := get_access_token e [(''user_id'', JInt (Token.pk t))],
                   refresh := get_refresh_token e\<rparr>) st =
                (Inr ?t', st\<lparr>tokens := map (\<lambda>x. if Token.pk x = Token.pk t then ?t' else x) (tokens st)\<rparr>)"
    using nofault noother ups by (simp add: Token_save_def Let_def)
  show ?thesis
    using found valid save
    by (simp add: RefreshTokenView_get_def response_def set_cookie_def Let_def)
qed

theorem RefreshTokenView_claims_token_pk_witness:
  "Token.pk example_token = 7 \<and> Token.user_id example_token = 3
   \<and> RefreshTokenView_get example_env example_state (Some ''refresh.old'') =
     (Inr \<lparr>data = [(''status'', JStr ''success''), (''access_token'', JStr ''access.7'')],
           status = 200,
           cookies = [\<lparr>key = ''refresh_token'', cvalue = ''refresh.new'', max_age = Some 86400,
                       path = ''/'', secure = True, httponly = False, samesite = Some ''None''\<rparr>]\<rparr>,
      example_state\<lparr>tokens := [\<lparr>Token.pk = 7, user_id = 3, access = ''access.7'', refresh = ''refresh.new'',
                                 created_at = 0, updated_at = 1000000000\<rparr>]\<rparr>)"
proof -
  have h1: "objects_get (\<lambda>t. refresh t = ''refresh.old'') (tokens example_state) = Inr example_token"
    by (simp add: objects_get_def example_state_def example_token_def)
  have h2: "distinct (map Token.user_id (tokens example_state))"
    by (simp add: example_state_def)
  have h3: "verify_token example_env ''refresh.old''"
    by (simp add: example_env_def)
  have h4: "\<not> db_fault example_env (views_py 312)"
    by (simp add: example_env_def)
  from RefreshTokenView_claims_token_pk [OF h1 h2 h3 h4]
  show ?thesis
    by (simp add: example_env_def example_state_def example_token_def)
qed

section \<open>Properties of sign-up\<close>

text \<open>
  A field of the sign-up payload names a profile column and holds a value of that
  column, so setting it on a new instance succeeds and touches neither
  \<open>email_verified\<close> nor the e-mail; by induction, so does setting all of them.
\<close>

lemma SignUpSerializer_field_names:
  assumes "SignUpSerializer_field (k, v)"
  shows "k = ''first_name'' \<or> k = ''last_name'' \<or> k = ''business_name'' \<or> k = ''individual_url''
       \<or> k = ''business'' \<or> k = ''individual'' \<or> k = ''accepted_terms''"
proof (rule ccontr)
  assume "\<not> ?thesis"
  then have "\<not> SignUpSerializer_field (k, v)"
    by (simp add: SignUpSerializer_field_def)
  with assms show False by simp
qed

lemma setattr_first_name:
  assumes "SignUpSerializer_field (''first_name'', v)"
  shows "\<exists>u'. CustomUser_setattr ''first_name'' v u = Inr u' \<and> email_verified u' = email_verified u
           \<and> email u' = email u"
  using assms by (cases v) (simp_all add: SignUpSerializer_field_def CustomUser_setattr_def)

lemma setattr_last_name:
  assumes "SignUpSerializer_field (''last_name'', v)"
  shows "\<exists>u'. CustomUser_setattr ''last_name'' v u = Inr u' \<and> email_verified u' = email_verified u
           \<and> email u' = email u"
  using assms by (cases v) (simp_all add: SignUpSerializer_field_def CustomUser_setattr_def)

lemma setattr_business_name:
  assumes "SignUpSerializer_field (''business_name'', v)"
  shows "\<exists>u'. CustomUser_setattr ''business_name'' v u = Inr u' \<and> email_verified u' = email_verified u
           \<and> email u' = email u"
  using assms by (cases v) (simp_all add: SignUpSerializer_field_def CustomUser_setattr_def)

lemma setattr_individual_url:
  assumes "SignUpSerializer_field (''individual_url'', v)"
  shows "\<exists>u'. CustomUser_setattr ''individual_url'' v u = Inr u' \<and> email_verified u' = email_verified u
           \<and> email u' = email u"
  using assms by (cases v) (simp_all add: SignUpSerializer_field_def CustomUser_setattr_def)

lemma setattr_business:
  assumes "SignUpSerializer_field (''business'', v)"
  shows "\<exists>u'. CustomUser_setattr ''business'' v u = Inr u' \<and> email_verified u' = email_verified u
           \<and> email u' = email u"
  using assms by (cases v) (simp_all add: SignUpSerializer_field_def CustomUser_setattr_def)

lemma setattr_individual:
  assumes "SignUpSerializer_field (''individual'', v)"
  shows "\<exists>u'. CustomUser_setattr ''individual'' v u = Inr u' \<and> email_verified u' = email_verified u
           \<and> email u' = email u"
  using assms by (cases v) (simp_all add: SignUpSerializer_field_def CustomUser_setattr_def)

lemma setattr_accepted_terms:
  assumes "SignUpSerializer_field (''accepted_terms'', v)"
  shows "\<exists>u'. CustomUser_setattr ''accepted_terms'' v u = Inr u' \<and> email_verified u' = email_verified u
           \<and> email u' = email u"
  using assms by (cases v) (simp_all add: SignUpSerializer_field_def CustomUser_setattr_def)

lemma CustomUser_setattr_field:
  assumes "SignUpSerializer_field (k, v)"
  shows "\<exists>u'. CustomUser_setattr k v u = Inr u' \<and> email_verified u' = email_verified u
           \<and> email u' = email u"
  using SignUpSerializer_field_names [OF assms]
proof (elim disjE)
  assume k: "k = ''first_name''"
  from assms have "SignUpSerializer_field (''first_name'', v)" unfolding k .
  then show ?thesis unfolding k by (rule setattr_first_name)
next
  assume k: "k = ''last_name''"
  from assms have "SignUpSerializer_field (''last_name'', v)" unfolding k .
  then show ?thesis unfolding k by (rule setattr_last_name)
next
  assume k: "k = ''business_name''"
  from assms have "SignUpSerializer_field (''business_name'', v)" unfolding k .
  then show ?thesis unfolding k by (rule setattr_business_name)
next
  assume k: "k = ''individual_url''"
  from assms have "SignUpSerializer_field (''individual_url'', v)" unfolding k .
  then show ?thesis unfolding k by (rule setattr_individual_url)
next
  assume k: "k = ''business''"
  from assms have "SignUpSerializer_field (''business'', v)" unfolding k .
  then show ?thesis unfolding k by (rule setattr_business)
next
  assume k: "k = ''individual''"
  from assms have "SignUpSerializer_field (''individual'', v)" unfolding k .
  then show ?thesis unfolding k by (rule setattr_individual)
next
  assume k: "k = ''accepted_terms''"
  from assms have "SignUpSerializer_field (''accepted_terms'', v)" unfolding k .
  then show ?thesis unfolding k by (rule setattr_accepted_terms)
qed

lemma CustomUser_init_fields:
  "list_all SignUpSerializer_field kwargs \<Longrightarrow>
     \<exists>u'. CustomUser_init kwargs u = Inr u' \<and> email_verified u' = email_verified u
        \<and> email u' = email u"
proof (induction kwargs arbitrary: u)
  case Nil
  then show ?case by simp
next
  case (Cons kv kwargs)
  from Cons.prems have "SignUpSerializer_field (fst kv, snd kv)" by simp
  from CustomUser_setattr_field [OF this, of u]
  obtain u1 where u1: "CustomUser_setattr (fst kv) (snd kv) u = Inr u1"
      "email_verified u1 = email_verified u" "email u1 = email u" by blast
  from Cons.prems have "list_all SignUpSerializer_field kwargs" by simp
  from Cons.IH [OF this, of u1]
  obtain u' where "CustomUser_init kwargs u1 = Inr u'"
      "email_verified u' = email_verified u1" "email u' = email u1" by blast
  with u1 show ?case by simp
qed

lemma setattr_email:
  "CustomUser_setattr ''email'' (JStr s) u = Inr (u\<lparr>email := s\<rparr>)"
  by (simp add: CustomUser_setattr_def)

lemma create_user_fields:
  assumes fields: "list_all SignUpSerializer_field extra_fields"
    and nonempty: "em \<noteq> []"
    and fresh: "\<not> list_ex (\<lambda>x. email x = normalize_email e em) (users st)"
    and nofault: "\<not> db_fault e (models_py 16)"
  shows "\<exists>u. create_user e st em pw extra_fields =
              (Inr u, st\<lparr>users := users st @ [u], user_seq := user_seq st + 1\<rparr>)
           \<and> email u = normalize_email e em \<and> email_verified u = False
           \<and> password u = make_password e pw"
proof -
  let ?u0 = "CustomUser_defaults\<lparr>email := normalize_email e em\<rparr>"
  from CustomUser_init_fields [OF fields, of ?u0]
  obtain u1 where u1: "CustomUser_init extra_fields ?u0 = Inr u1"
      "email_verified u1 = email_verified ?u0" "email u1 = email ?u0" by blast
  have unverified: "email_verified u1 = False" and mail: "email u1 = normalize_email e em"
    using u1(2,3) by (simp_all add: CustomUser_defaults_def)
  have init: "CustomUser_init ((''email'', JStr (normalize_email e em)) # extra_fields) CustomUser_defaults = Inr u1"
    using u1(1) by (simp add: setattr_email)
  show ?thesis
    unfolding create_user_def Let_def init
    using nonempty fresh nofault unverified mail
    by (simp add: CustomUser_insert_def Let_def)
qed

text \<open>
  C9. For a valid sign-up payload whose e-mail, as \<^verbatim>\<open>create_user\<close> stores it, is
  not in use, and with the insert carried out, the user table gains one row: the user
  with \<open>email_verified = False\<close> and with \<^verbatim>\<open>make_password(password)\<close> as the stored
  password, which is not the plaintext wherever the hasher does not return its input;
  and the answer is HTTP 201 with the status, the message and the fields of the
  created user.
\<close>

theorem SignUpView_creates_unverified_user:
  assumes valid: "SignUpSerializer_valid validated_data"
    and em: "map_of validated_data ''email'' = Some (JStr em)"
    and pw: "map_of validated_data ''password'' = Some (JStr pw)"
    and fresh: "\<not> list_ex (\<lambda>x. email x = normalize_email e em) (users st)"
    and nofault: "\<not> db_fault e (models_py 16)"
    and hashed: "make_password e pw \<noteq> pw"
  shows "\<exists>u. SignUpView_post e st (Validated validated_data) =
              (Inr \<lparr>data = dict_update [(''status'', JStr ''success''),
                                        (''message'', JStr ''Account created successfully.'')]
                                       (SignUpSerializer_data e u),
                    status = 201, cookies = []\<rparr>,
               st\<lparr>users := users st @ [u], user_seq := user_seq st + 1\<rparr>)
           \<and> email u = normalize_email e em \<and> email_verified u = False
           \<and> password u = make_password e pw \<and> password u \<noteq> pw"
proof -
  from valid em have nonempty: "em \<noteq> []"
    by (simp add: SignUpSerializer_valid_def)
  from valid have fields: "list_all SignUpSerializer_field (extra_of validated_data)"
    by (simp add: SignUpSerializer_valid_def)
  from create_user_fields [OF fields nonempty fresh nofault, of pw]
  obtain u where created: "create_user e st em pw (extra_of validated_data) =
              (Inr u, st\<lparr>users := users st @ [u], user_seq := user_seq st + 1\<rparr>)"
    and mail: "email u = normalize_email e em" and unverified: "email_verified u = False"
    and stored: "password u = make_password e pw"
    by (elim exE conjE)
  have save: "SignUpSerializer_save e st validated_data =
              (Inr u, st\<lparr>users := users st @ [u], user_seq := user_seq st + 1\<rparr>)"
    unfolding SignUpSerializer_save_def em pw using created by simp
  have post: "SignUpView_post e st (Validated validated_data) =
              (Inr \<lparr>data = dict_update [(''status'', JStr ''success''),
                                        (''message'', JStr ''Account created successfully.'')]
                                       (SignUpSerializer_data e u),
                    status = 201, cookies = []\<rparr>,
               st\<lparr>users := users st @ [u], user_seq := user_seq st + 1\<rparr>)"
    using save by (simp add: SignUpView_post_def response_def)
  from stored hashed have plain: "password u \<noteq> pw" by simp
  from post mail unverified stored plain show ?thesis
    by (intro exI [of _ u] conjI)
qed

theorem SignUpView_creates_unverified_user_witness:
  "SignUpView_post example_env example_state (Validated example_payload) =
     (Inr \<lparr>data = [(''status'', JStr ''success''), (''message'', JStr ''Account created successfully.''),
                   (''email'', JStr ''c@d.com'')],
           status = 201, cookies = []\<rparr>,
      example_state\<lparr>users := [example_user,
          \<lparr>CustomUser.pk = 4, password = ''pbkdf2$Secret123'', last_login = None, is_superuser = False,
           email = ''c@d.com'', otp = None, first_name = ''C'', last_name = ''D'',
           business_name = None, individual_url = None, business = Some False,
           individual = Some False, email_verified = False, accepted_terms = True,
           is_active = True, is_staff = False, created_at = 1000000000, updated_at = 1000000000\<rparr>],
        user_seq := 4\<rparr>)"
proof -
  have h1: "SignUpSerializer_valid example_payload"
    by (simp add: SignUpSerializer_valid_def SignUpSerializer_field_def extra_of_def example_payload_def)
  have h2: "map_of example_payload ''email'' = Some (JStr ''c@d.com'')"
    by (simp add: example_payload_def)
  have h3: "map_of example_payload ''password'' = Some (JStr ''Secret123'')"
    by (simp add: example_payload_def)
  have h4: "\<not> list_ex (\<lambda>x. email x = normalize_email example_env ''c@d.com'') (users example_state)"
    by (simp add: example_env_def example_state_def example_user_def)
  have h5: "\<not> db_fault example_env (models_py 16)"
    by (simp add: example_env_def)
  have h6: "make_password example_env ''Secret123'' \<noteq> ''Secret123''"
    by (simp add: example_env_def)
  have run: "SignUpView_post example_env example_state (Validated example_payload) =
     (Inr \<lparr>data = [(''status'', JStr ''success''), (''message'', JStr ''Account created successfully.''),
                   (''email'', JStr ''c@d.com'')],
           status = 201, cookies = []\<rparr>,
      example_state\<lparr>users := [example_user,
          \<lparr>CustomUser.pk = 4, password = ''pbkdf2$Secret123'', last_login = None, is_superuser = False,
           email = ''c@d.com'', otp = None, first_name = ''C'', last_name = ''D'',
           business_name = None, individual_url = None, business = Some False,
           individual = Some False, email_verified = False, accepted_terms = True,
           is_active = True, is_staff = False, created_at = 1000000000, updated_at = 1000000000\<rparr>],
        user_seq := 4\<rparr>)"
    by (simp add: SignUpView_post_def SignUpSerializer_save_def create_user_def CustomUser_insert_def
          CustomUser_setattr_def CustomUser_defaults_def extra_of_def dict_update_def response_def Let_def
          example_payload_def example_env_def example_state_def example_user_def)
  from SignUpView_creates_unverified_user [OF h1 h2 h3 h4 h5 h6] run
  show ?thesis by simp
qed

end
